theory Spec2Isabelle
  imports Main
begin

section \<open>Python values, exceptions and the operations the converter uses\<close>

text \<open>
  \<^verbatim>\<open>SwaggerConvert.py\<close> works on the values \<^verbatim>\<open>response.json()\<close> returns and builds its
  output from dictionaries, lists and strings. A value is \<open>None\<close>, a boolean, an integer, a
  string, a list or a dictionary. A dictionary is the list of its items in insertion order.
  JSON numbers with a fraction or an exponent (Python floats) are outside the model.
  A string is a list of characters with code points below 256.
\<close>

datatype pyval =
    PNone
  | PBool bool
  | PInt int
  | PStr string
  | PList "pyval list"
  | PDict "(pyval \<times> pyval) list"

text \<open>The exceptions the converter can raise and does not catch. \<open>KeyError\<close> carries the key.\<close>

datatype error = KeyError pyval | TypeError | AttributeError | ValueError

text \<open>Sequencing of steps that may raise: the first exception ends the computation.\<close>

definition thenE :: "error + 'a \<Rightarrow> ('a \<Rightarrow> error + 'b) \<Rightarrow> error + 'b" where
  "thenE m f = (case m of Inl e \<Rightarrow> Inl e | Inr x \<Rightarrow> f x)"

text \<open>A \<^verbatim>\<open>for\<close> loop over a list that updates a state, and one that collects results.\<close>

fun foldE :: "('s \<Rightarrow> 'a \<Rightarrow> error + 's) \<Rightarrow> 'a list \<Rightarrow> 's \<Rightarrow> error + 's" where
  "foldE f [] s = Inr s"
| "foldE f (x # xs) s = thenE (f s x) (foldE f xs)"

fun mapE :: "('a \<Rightarrow> error + 'b) \<Rightarrow> 'a list \<Rightarrow> error + 'b list" where
  "mapE f [] = Inr []"
| "mapE f (x # xs) = thenE (f x) (\<lambda>y. thenE (mapE f xs) (\<lambda>ys. Inr (y # ys)))"

subsection \<open>Truth values\<close>

text \<open>Python's truth test: \<open>None\<close>, \<open>False\<close>, zero and the empty containers are falsy.\<close>

fun truthy :: "pyval \<Rightarrow> bool" where
  "truthy PNone = False"
| "truthy (PBool b) = b"
| "truthy (PInt i) = (i \<noteq> 0)"
| "truthy (PStr s) = (s \<noteq> [])"
| "truthy (PList xs) = (xs \<noteq> [])"
| "truthy (PDict kvs) = (kvs \<noteq> [])"

text \<open>\<^verbatim>\<open>a or b\<close> on values.\<close>

definition py_or :: "pyval \<Rightarrow> pyval \<Rightarrow> pyval" where
  "py_or a b = (if truthy a then a else b)"

subsection \<open>Dictionaries\<close>

text \<open>
  Keys are compared as Python compares hashable values: \<open>True\<close> and \<open>False\<close> are the keys
  \<open>1\<close> and \<open>0\<close>. Lists and dictionaries are not hashable.
\<close>

fun key_norm :: "pyval \<Rightarrow> pyval" where
  "key_norm (PBool b) = PInt (if b then 1 else 0)"
| "key_norm v = v"

definition key_eq :: "pyval \<Rightarrow> pyval \<Rightarrow> bool" where
  "key_eq a b = (key_norm a = key_norm b)"

fun hashable :: "pyval \<Rightarrow> bool" where
  "hashable (PList xs) = False"
| "hashable (PDict kvs) = False"
| "hashable v = True"

fun dict_lookup :: "(pyval \<times> pyval) list \<Rightarrow> pyval \<Rightarrow> pyval option" where
  "dict_lookup [] k = None"
| "dict_lookup ((k', v) # d) k = (if key_eq k' k then Some v else dict_lookup d k)"

text \<open>\<^verbatim>\<open>d[k] = v\<close>: an existing key keeps its place, a new key goes last.\<close>

fun dict_store :: "(pyval \<times> pyval) list \<Rightarrow> pyval \<Rightarrow> pyval \<Rightarrow> (pyval \<times> pyval) list" where
  "dict_store [] k v = [(k, v)]"
| "dict_store ((k', v') # d) k v =
     (if key_eq k' k then (k', v) # d else (k', v') # dict_store d k v)"

definition dict_delete :: "(pyval \<times> pyval) list \<Rightarrow> pyval \<Rightarrow> (pyval \<times> pyval) list" where
  "dict_delete d k = filter (\<lambda>kv. \<not> key_eq (fst kv) k) d"

text \<open>
  \<^verbatim>\<open>x["k"]\<close> with a string key: a dictionary without the key raises \<open>KeyError\<close>; a list, a
  string or any other value raises \<open>TypeError\<close>.
\<close>

definition py_getitem :: "pyval \<Rightarrow> string \<Rightarrow> error + pyval" where
  "py_getitem x k =
     (case x of
        PDict d \<Rightarrow> (case dict_lookup d (PStr k) of
                      None \<Rightarrow> Inl (KeyError (PStr k))
                    | Some v \<Rightarrow> Inr v)
      | _ \<Rightarrow> Inl TypeError)"

text \<open>\<^verbatim>\<open>x.get("k", default)\<close>: only a dictionary has the method.\<close>

definition py_get :: "pyval \<Rightarrow> string \<Rightarrow> pyval \<Rightarrow> error + pyval" where
  "py_get x k dflt =
     (case x of
        PDict d \<Rightarrow> (case dict_lookup d (PStr k) of None \<Rightarrow> Inr dflt | Some v \<Rightarrow> Inr v)
      | _ \<Rightarrow> Inl AttributeError)"

text \<open>
  \<^verbatim>\<open>"k" in x\<close>. The converter evaluates it only on a value it has already subscripted
  with a string, hence on a dictionary.
\<close>

definition py_contains :: "pyval \<Rightarrow> string \<Rightarrow> error + bool" where
  "py_contains x k =
     (case x of
        PDict d \<Rightarrow> Inr (dict_lookup d (PStr k) \<noteq> None)
      | _ \<Rightarrow> Inl TypeError)"

text \<open>\<^verbatim>\<open>x["k"] = v\<close> with a string key: only a dictionary accepts it.\<close>

definition py_setitem :: "pyval \<Rightarrow> string \<Rightarrow> pyval \<Rightarrow> error + pyval" where
  "py_setitem x k v =
     (case x of
        PDict d \<Rightarrow> Inr (PDict (dict_store d (PStr k) v))
      | _ \<Rightarrow> Inl TypeError)"

text \<open>\<^verbatim>\<open>del x["k"]\<close>.\<close>

definition py_delitem :: "pyval \<Rightarrow> string \<Rightarrow> error + pyval" where
  "py_delitem x k =
     (case x of
        PDict d \<Rightarrow> (case dict_lookup d (PStr k) of
                      None \<Rightarrow> Inl (KeyError (PStr k))
                    | Some v \<Rightarrow> Inr (PDict (dict_delete d (PStr k))))
      | _ \<Rightarrow> Inl TypeError)"

text \<open>\<^verbatim>\<open>x.items()\<close> and \<^verbatim>\<open>x.values()\<close>.\<close>

definition py_items :: "pyval \<Rightarrow> error + (pyval \<times> pyval) list" where
  "py_items x = (case x of PDict d \<Rightarrow> Inr d | _ \<Rightarrow> Inl AttributeError)"

text \<open>
  \<^verbatim>\<open>for y in x\<close>: a list gives its elements, a dictionary its keys, a string its
  characters as strings of length one; nothing else can be iterated.
\<close>

definition py_iter :: "pyval \<Rightarrow> error + pyval list" where
  "py_iter x =
     (case x of
        PList xs \<Rightarrow> Inr xs
      | PDict d \<Rightarrow> Inr (map fst d)
      | PStr s \<Rightarrow> Inr (map (\<lambda>c. PStr [c]) s)
      | _ \<Rightarrow> Inl TypeError)"

subsection \<open>Strings\<close>

text \<open>
  \<^verbatim>\<open>str.lower\<close> on code points below 256: the letters A to Z, and the capital letters of
  Latin-1 (192 to 222 without the multiplication sign 215) move up by 32.
\<close>

definition py_lower_char :: "char \<Rightarrow> char" where
  "py_lower_char c =
     (case map_of (zip ''ABCDEFGHIJKLMNOPQRSTUVWXYZ'' ''abcdefghijklmnopqrstuvwxyz'') c of
        Some l \<Rightarrow> l
      | None \<Rightarrow>
          (let n = (of_char c :: nat)
           in if 192 \<le> n \<and> n \<le> 222 \<and> n \<noteq> 215 then char_of (n + 32) else c))"

definition py_lower :: "string \<Rightarrow> string" where
  "py_lower s = map py_lower_char s"

text \<open>\<^verbatim>\<open>x.lower()\<close> on a value: only a string has the method.\<close>

definition py_lower_val :: "pyval \<Rightarrow> error + pyval" where
  "py_lower_val x = (case x of PStr s \<Rightarrow> Inr (PStr (py_lower s)) | _ \<Rightarrow> Inl AttributeError)"

definition py_endswith :: "string \<Rightarrow> string \<Rightarrow> bool" where
  "py_endswith s suf = (length suf \<le> length s \<and> drop (length s - length suf) s = suf)"

definition py_startswith :: "string \<Rightarrow> string \<Rightarrow> bool" where
  "py_startswith s pre = (take (length pre) s = pre)"

text \<open>\<^verbatim>\<open>s.rstrip(chars)\<close> and \<^verbatim>\<open>s.lstrip(chars)\<close>.\<close>

definition py_rstrip :: "string \<Rightarrow> string \<Rightarrow> string" where
  "py_rstrip s chars = rev (dropWhile (\<lambda>c. c \<in> set chars) (rev s))"

definition py_lstrip :: "string \<Rightarrow> string \<Rightarrow> string" where
  "py_lstrip s chars = dropWhile (\<lambda>c. c \<in> set chars) s"

text \<open>\<^verbatim>\<open>s.split(sep)\<close> for a separator of one character: at least one piece.\<close>

fun py_split :: "string \<Rightarrow> char \<Rightarrow> string list" where
  "py_split [] sep = [[]]"
| "py_split (c # cs) sep =
     (if c = sep then [] # py_split cs sep
      else (case py_split cs sep of
              [] \<Rightarrow> [[c]]
            | p # ps \<Rightarrow> (c # p) # ps))"

text \<open>
  \<^verbatim>\<open>s.replace(old, new)\<close>: every occurrence of \<open>old\<close>, found from the left without
  overlap, becomes \<open>new\<close>. An empty \<open>old\<close> matches before every character and at the end.
\<close>

fun replace_from :: "string \<Rightarrow> string \<Rightarrow> string \<Rightarrow> string" where
  "replace_from old new [] = []"
| "replace_from old new (c # cs) =
     (if take (length old) (c # cs) = old
      then new @ replace_from old new (drop (length old - 1) cs)
      else c # replace_from old new cs)"

definition py_replace :: "string \<Rightarrow> string \<Rightarrow> string \<Rightarrow> string" where
  "py_replace s old new =
     (if old = [] then new @ concat (map (\<lambda>c. c # new) s) else replace_from old new s)"

text \<open>\<^verbatim>\<open>sep.join(xs)\<close>.\<close>

fun py_join :: "string \<Rightarrow> string list \<Rightarrow> string" where
  "py_join sep [] = []"
| "py_join sep [x] = x"
| "py_join sep (x # y # ys) = x @ sep @ py_join sep (y # ys)"

text \<open>Decimal digits of a natural number, and \<^verbatim>\<open>str\<close> of an integer.\<close>

fun dec_digits :: "nat \<Rightarrow> string" where
  "dec_digits n =
     (if n < 10 then [''0123456789'' ! n]
      else dec_digits (n div 10) @ [''0123456789'' ! (n mod 10)])"

definition int_str :: "int \<Rightarrow> string" where
  "int_str i = (if i < 0 then ''-'' @ dec_digits (nat (- i)) else dec_digits (nat i))"

text \<open>
  \<^verbatim>\<open>repr\<close> of a string: single quotes, unless the string has a single quote and no double
  quote; the quote and the backslash are escaped, tab, newline and carriage return have
  their letters, and a character that is not printable is written \<^verbatim>\<open>\xhh\<close>. Below 256 the
  characters that are not printable are 0 to 31, 127 to 160 and 173.
\<close>

definition hex2 :: "nat \<Rightarrow> string" where
  "hex2 n = [''0123456789abcdef'' ! (n div 16), ''0123456789abcdef'' ! (n mod 16)]"

definition repr_char :: "char \<Rightarrow> char \<Rightarrow> string" where
  "repr_char quote c =
     (let n = (of_char c :: nat)
      in if c = quote \<or> c = CHR 0x5C then [CHR 0x5C, c]
         else if n = 9 then [CHR 0x5C, CHR ''t'']
         else if n = 10 then [CHR 0x5C, CHR ''n'']
         else if n = 13 then [CHR 0x5C, CHR ''r'']
         else if n < 32 \<or> (127 \<le> n \<and> n \<le> 160) \<or> n = 173
           then [CHR 0x5C, CHR ''x''] @ hex2 n
         else [c])"

definition str_repr :: "string \<Rightarrow> string" where
  "str_repr s =
     (let quote = (if CHR 0x27 \<in> set s \<and> CHR 0x22 \<notin> set s then CHR 0x22 else CHR 0x27)
      in [quote] @ concat (map (repr_char quote) s) @ [quote])"

fun py_repr :: "pyval \<Rightarrow> string" where
  "py_repr PNone = ''None''"
| "py_repr (PBool b) = (if b then ''True'' else ''False'')"
| "py_repr (PInt i) = int_str i"
| "py_repr (PStr s) = str_repr s"
| "py_repr (PList xs) = ''['' @ py_join '', '' (map py_repr xs) @ '']''"
| "py_repr (PDict kvs) =
     ''{'' @ py_join '', '' (map (\<lambda>kv. py_repr (fst kv) @ '': '' @ py_repr (snd kv)) kvs) @ ''}''"

text \<open>\<^verbatim>\<open>str(x)\<close>, which is also what an f-string puts in place of \<^verbatim>\<open>{x}\<close>.\<close>

definition py_str :: "pyval \<Rightarrow> string" where
  "py_str x = (case x of PStr s \<Rightarrow> s | _ \<Rightarrow> py_repr x)"

section \<open>The world outside the converter\<close>

text \<open>
  The converter reads documents with \<^verbatim>\<open>requests.get\<close> and parses its argument with
  \<^verbatim>\<open>urllib.parse.urlparse\<close>. \<open>http_get w u\<close> is the JSON document behind the URL \<open>u\<close>, or
  \<open>None\<close> when the request, its status check or the decoding of its body raises
  \<^verbatim>\<open>requests.RequestException\<close>, the one exception the converter catches.
  \<open>bracketed_host_ok w h\<close> is the standard library's check of a host written in
  brackets (an IPv6 or IPvFuture literal), which \<^verbatim>\<open>urlsplit\<close> delegates to the
  \<^verbatim>\<open>ipaddress\<close> module.
\<close>

record world =
  http_get :: "string \<Rightarrow> pyval option"
  bracketed_host_ok :: "string \<Rightarrow> bool"

subsection \<open>\<^verbatim>\<open>urllib.parse.urlparse\<close>\<close>

record parsed_url =
  scheme :: string
  netloc :: string
  path :: string
  params :: string
  query :: string
  fragment :: string

definition scheme_chars :: string where
  "scheme_chars = ''abcdefghijklmnopqrstuvwxyzABCDEFGHIJKLMNOPQRSTUVWXYZ0123456789+-.''"

definition ascii_letters :: string where
  "ascii_letters = ''abcdefghijklmnopqrstuvwxyzABCDEFGHIJKLMNOPQRSTUVWXYZ''"

definition uses_params :: "string list" where
  "uses_params = ['''', ''ftp'', ''hdl'', ''prospero'', ''http'', ''imap'', ''https'', ''shttp'',
     ''rtsp'', ''rtsps'', ''rtspu'', ''sip'', ''sips'', ''mms'', ''sftp'', ''tel'']"

text \<open>\<^verbatim>\<open>s.partition(c)\<close>: the text before the first \<open>c\<close> and the text after it.\<close>

definition before_first :: "char \<Rightarrow> string \<Rightarrow> string" where
  "before_first c s = takeWhile (\<lambda>x. x \<noteq> c) s"

definition after_first :: "char \<Rightarrow> string \<Rightarrow> string" where
  "after_first c s = drop 1 (dropWhile (\<lambda>x. x \<noteq> c) s)"

text \<open>
  The scheme: the text before the first colon, when it is not empty, starts with an ASCII
  letter and has scheme characters only. It is lower-cased and cut off with its colon.
\<close>

definition split_scheme :: "string \<Rightarrow> string \<times> string" where
  "split_scheme url =
     (let pre = before_first CHR '':'' url
      in if CHR '':'' \<in> set url \<and> pre \<noteq> [] \<and> hd pre \<in> set ascii_letters
            \<and> list_all (\<lambda>c. c \<in> set scheme_chars) pre
         then (py_lower pre, after_first CHR '':'' url)
         else ('''', url))"

text \<open>\<^verbatim>\<open>_splitnetloc(url, 2)\<close>: the authority ends at the first of \<^verbatim>\<open>/ ? #\<close>.\<close>

definition splitnetloc :: "string \<Rightarrow> string \<times> string" where
  "splitnetloc url =
     (takeWhile (\<lambda>c. c \<notin> set ''/?#'') (drop 2 url),
      dropWhile (\<lambda>c. c \<notin> set ''/?#'') (drop 2 url))"

text \<open>\<^verbatim>\<open>_splitparams\<close>: parameters follow the first semicolon of the last path segment.\<close>

definition splitparams :: "string \<Rightarrow> string \<times> string" where
  "splitparams url =
     (let seg = rev (takeWhile (\<lambda>c. c \<noteq> CHR ''/'') (rev url));
          front = rev (dropWhile (\<lambda>c. c \<noteq> CHR ''/'') (rev url))
      in if CHR '';'' \<in> set seg
         then (front @ before_first CHR '';'' seg, after_first CHR '';'' seg)
         else (url, ''''))"

text \<open>
  \<^verbatim>\<open>urlsplit\<close> followed by \<^verbatim>\<open>urlparse\<close>'s split of the parameters. Leading characters up to
  the space are stripped, tabs and line breaks are removed, then scheme, authority,
  fragment and query are cut off in this order. Unbalanced brackets in the authority, or
  a bracketed host the library rejects, raise \<open>ValueError\<close>. The library's last check of
  the authority (its NFKC normal form must not bring in one of \<^verbatim>\<open>/ ? # @ :\<close>) never fails
  on code points below 256.
\<close>

definition urlparse :: "world \<Rightarrow> string \<Rightarrow> error + parsed_url" where
  "urlparse w url0 =
     (let url1 = dropWhile (\<lambda>c. (of_char c :: nat) \<le> 32) url0;
          url2 = filter (\<lambda>c. c \<notin> set [CHR 0x09, CHR 0x0D, CHR 0x0A]) url1;
          (sch, url3) = split_scheme url2;
          (net, url4) = (if take 2 url3 = ''//'' then splitnetloc url3 else ('''', url3));
          (url5, frag) = (if CHR ''#'' \<in> set url4
                          then (before_first CHR ''#'' url4, after_first CHR ''#'' url4)
                          else (url4, ''''));
          (url6, qry) = (if CHR ''?'' \<in> set url5
                         then (before_first CHR ''?'' url5, after_first CHR ''?'' url5)
                         else (url5, ''''));
          (pth, prm) = (if sch \<in> set uses_params \<and> CHR '';'' \<in> set url6
                         then splitparams url6 else (url6, ''''))
      in if (CHR ''['' \<in> set net) \<noteq> (CHR '']'' \<in> set net) then Inl ValueError
         else if CHR ''['' \<in> set net
                 \<and> \<not> bracketed_host_ok w (before_first CHR '']'' (after_first CHR ''['' net))
           then Inl ValueError
         else Inr \<lparr>scheme = sch, netloc = net, path = pth, params = prm,
                    query = qry, fragment = frag\<rparr>)"

section \<open>The converter\<close>

subsection \<open>\<^verbatim>\<open>fetch_api_details\<close>\<close>

text \<open>A request that fails is reported and gives an empty dictionary.\<close>

definition fetch_api_details :: "world \<Rightarrow> string \<Rightarrow> string \<Rightarrow> pyval" where
  "fetch_api_details w base_url p =
     (case http_get w (base_url @ p) of
        Some v \<Rightarrow> v
      | None \<Rightarrow> PDict [])"

subsection \<open>Parameters and response messages of an operation\<close>

text \<open>The body of the loop over \<^verbatim>\<open>operation.get("parameters", [])\<close>.\<close>

definition convert_param :: "pyval \<Rightarrow> error + pyval" where
  "convert_param param =
     thenE (py_getitem param ''name'') (\<lambda>name.
     thenE (py_getitem param ''paramType'') (\<lambda>param_type.
     thenE (py_get param ''description'' (PStr '''')) (\<lambda>description.
     thenE (py_getitem param ''required'') (\<lambda>required.
     thenE (py_get param ''type'' (PStr ''string'')) (\<lambda>ty.
     thenE (py_lower_val ty) (\<lambda>lty.
     let param_spec =
           [(PStr ''name'', name), (PStr ''in'', param_type),
            (PStr ''description'', description), (PStr ''required'', required),
            (PStr ''type'', lty)]
     in thenE (py_contains param ''format'') (\<lambda>has_format.
        if has_format
        then thenE (py_getitem param ''format'') (\<lambda>fmt.
               Inr (PDict (dict_store param_spec (PStr ''format'') fmt)))
        else Inr (PDict param_spec))))))))"

text \<open>
  The response object of one response message, with the key it is stored under:
  \<^verbatim>\<open>str(resp["code"])\<close>.
\<close>

definition convert_response :: "pyval \<Rightarrow> error + (string \<times> pyval)" where
  "convert_response resp =
     thenE (py_getitem resp ''code'') (\<lambda>code.
     thenE (py_getitem resp ''message'') (\<lambda>message.
     thenE (py_getitem resp ''responseModel'') (\<lambda>response_model.
     Inr (py_str code,
          PDict [(PStr ''description'', py_or message (PStr ''No description'')),
                 (PStr ''schema'',
                    if truthy response_model
                    then PDict [(PStr ''$ref'', PStr (''#/definitions/'' @ py_str response_model))]
                    else PNone)]))))"

text \<open>The body of the loop over \<^verbatim>\<open>operation.get("responseMessages", [])\<close>.\<close>

definition add_response :: "(pyval \<times> pyval) list \<Rightarrow> pyval \<Rightarrow> error + (pyval \<times> pyval) list" where
  "add_response responses resp =
     thenE (convert_response resp) (\<lambda>r.
     Inr (dict_store responses (PStr (fst r)) (snd r)))"

subsection \<open>Operations\<close>

text \<open>
  The lower-cased method of an operation and the operation object built for it, before
  it is stored in \<^verbatim>\<open>paths\<close>.
\<close>

definition convert_operation :: "string \<Rightarrow> pyval \<Rightarrow> error + (pyval \<times> pyval)" where
  "convert_operation tag_name operation =
     thenE (py_getitem operation ''method'') (\<lambda>m.
     thenE (py_lower_val m) (\<lambda>method.
     thenE (py_get operation ''parameters'' (PList [])) (\<lambda>ps.
     thenE (py_iter ps) (\<lambda>param_list.
     thenE (mapE convert_param param_list) (\<lambda>parameters.
     thenE (py_get operation ''responseMessages'' (PList [])) (\<lambda>rs.
     thenE (py_iter rs) (\<lambda>resp_list.
     thenE (foldE add_response resp_list []) (\<lambda>responses.
     thenE (py_getitem operation ''summary'') (\<lambda>summary.
     thenE (py_getitem operation ''notes'') (\<lambda>notes.
     thenE (py_getitem operation ''consumes'') (\<lambda>consumes.
     thenE (py_getitem operation ''produces'') (\<lambda>produces.
     Inr (method,
          PDict [(PStr ''tags'', PList [PStr tag_name]),
                 (PStr ''summary'', summary),
                 (PStr ''description'', notes),
                 (PStr ''parameters'', PList parameters),
                 (PStr ''responses'', PDict responses),
                 (PStr ''consumes'', consumes),
                 (PStr ''produces'', produces)])))))))))))))"

text \<open>
  \<^verbatim>\<open>if path not in paths: paths[path] = {}\<close> and \<^verbatim>\<open>paths[path][method] = operation_obj\<close>.
  A path that is a list or a dictionary cannot be a key.
\<close>

definition store_operation ::
  "(pyval \<times> pyval) list \<Rightarrow> pyval \<Rightarrow> pyval \<Rightarrow> pyval \<Rightarrow> error + (pyval \<times> pyval) list" where
  "store_operation ps p method obj =
     (if \<not> hashable p then Inl TypeError
      else let ps1 = (if dict_lookup ps p = None then dict_store ps p (PDict []) else ps)
           in case dict_lookup ps1 p of
                Some (PDict ms) \<Rightarrow> Inr (dict_store ps1 p (PDict (dict_store ms method obj)))
              | Some _ \<Rightarrow> Inl TypeError
              | None \<Rightarrow> Inl (KeyError p))"

text \<open>The state of the loop over the API references of the resource listing.\<close>

record conv_state =
  tags :: "pyval list"
  paths :: "(pyval \<times> pyval) list"
  seen_tags :: "string set"

text \<open>The body of the loop over \<^verbatim>\<open>endpoint["operations"]\<close>.\<close>

definition process_operation :: "string \<Rightarrow> pyval \<Rightarrow> conv_state \<Rightarrow> pyval \<Rightarrow> error + conv_state" where
  "process_operation tag_name p st operation =
     thenE (convert_operation tag_name operation) (\<lambda>mo.
     thenE (store_operation (paths st) p (fst mo) (snd mo)) (\<lambda>ps.
     Inr (st\<lparr>paths := ps\<rparr>)))"

text \<open>The body of the loop over \<^verbatim>\<open>api_details.get("apis", [])\<close>.\<close>

definition process_endpoint :: "string \<Rightarrow> conv_state \<Rightarrow> pyval \<Rightarrow> error + conv_state" where
  "process_endpoint tag_name st endpoint =
     thenE (py_getitem endpoint ''path'') (\<lambda>p.
     thenE (py_getitem endpoint ''operations'') (\<lambda>ops.
     thenE (py_iter ops) (\<lambda>op_list.
     foldE (process_operation tag_name p) op_list st)))"

text \<open>
  \<^verbatim>\<open>api_entry["path"].split("/")[-1].replace("-controller", "")\<close> on the string of the
  path.
\<close>

definition tag_name_of :: "string \<Rightarrow> string" where
  "tag_name_of p = py_replace (last (py_split p CHR ''/'')) ''-controller'' ''''"

text \<open>
  The body of the loop over \<^verbatim>\<open>input_data["apis"]\<close>: the tag of the reference, added when it
  has not been seen, then the endpoints of its declaration. A path that is not a string
  has no \<^verbatim>\<open>split\<close>. The description is read only for a tag that is new.
\<close>

definition add_tag :: "conv_state \<Rightarrow> string \<Rightarrow> pyval \<Rightarrow> error + conv_state" where
  "add_tag st tag_name api_entry =
     (if tag_name \<notin> seen_tags st
      then thenE (py_getitem api_entry ''description'') (\<lambda>d.
             Inr (st\<lparr>tags := tags st @ [PDict [(PStr ''name'', PStr tag_name),
                                                (PStr ''description'', d)]],
                       seen_tags := insert tag_name (seen_tags st)\<rparr>))
      else Inr st)"

definition process_api_entry :: "world \<Rightarrow> string \<Rightarrow> conv_state \<Rightarrow> pyval \<Rightarrow> error + conv_state" where
  "process_api_entry w base_url st api_entry =
     thenE (py_getitem api_entry ''path'') (\<lambda>pv.
     case pv of
       PStr p \<Rightarrow>
         thenE (add_tag st (tag_name_of p) api_entry) (\<lambda>st1.
         thenE (py_get (fetch_api_details w base_url p) ''apis'' (PList [])) (\<lambda>eps.
         thenE (py_iter eps) (\<lambda>endpoint_list.
         foldE (process_endpoint (tag_name_of p)) endpoint_list st1)))
     | _ \<Rightarrow> Inl AttributeError)"

subsection \<open>Model definitions\<close>

text \<open>
  The body of the loop over the properties of a model: the state is the dictionary
  \<^verbatim>\<open>properties\<close> and the list \<^verbatim>\<open>required\<close>.
\<close>

definition convert_property ::
  "(pyval \<times> pyval) list \<times> pyval list \<Rightarrow> pyval \<times> pyval \<Rightarrow> error + ((pyval \<times> pyval) list \<times> pyval list)" where
  "convert_property acc item =
     thenE (py_getitem (snd item) ''type'') (\<lambda>ty.
     thenE (py_lower_val ty) (\<lambda>lty.
     thenE (py_get (snd item) ''description'' (PStr '''')) (\<lambda>description.
     let prop_spec = [(PStr ''type'', lty), (PStr ''description'', description)]
     in thenE (py_get (snd item) ''format'' PNone) (\<lambda>f.
        thenE (if truthy f
               then thenE (py_getitem (snd item) ''format'') (\<lambda>fmt.
                      Inr (dict_store prop_spec (PStr ''format'') fmt))
               else Inr prop_spec) (\<lambda>prop_spec1.
        thenE (py_get (snd item) ''required'' (PBool False)) (\<lambda>r.
        Inr (dict_store (fst acc) (fst item) (PDict prop_spec1),
             if truthy r then snd acc @ [fst item] else snd acc)))))))"

text \<open>The body of the loop over \<^verbatim>\<open>input_data.get("models", {}).items()\<close>.\<close>

definition convert_model :: "(pyval \<times> pyval) list \<Rightarrow> pyval \<times> pyval \<Rightarrow> error + (pyval \<times> pyval) list" where
  "convert_model defs item =
     thenE (py_getitem (snd item) ''properties'') (\<lambda>props.
     thenE (py_items props) (\<lambda>prop_items.
     thenE (foldE convert_property prop_items ([], [])) (\<lambda>pr.
     thenE (py_get (snd item) ''description'' (PStr '''')) (\<lambda>description.
     Inr (dict_store defs (fst item)
            (PDict [(PStr ''type'', PStr ''object''),
                    (PStr ''properties'', PDict (fst pr)),
                    (PStr ''required'', if snd pr \<noteq> [] then PList (snd pr) else PNone),
                    (PStr ''description'', description)]))))))"

subsection \<open>Clean-up of empty fields\<close>

text \<open>One operation object: \<^verbatim>\<open>responses\<close> and \<^verbatim>\<open>parameters\<close> are deleted when falsy.\<close>

definition cleanup_op :: "pyval \<Rightarrow> error + pyval" where
  "cleanup_op m =
     thenE (py_getitem m ''responses'') (\<lambda>r.
     thenE (if \<not> truthy r then py_delitem m ''responses'' else Inr m) (\<lambda>m1.
     thenE (py_getitem m1 ''parameters'') (\<lambda>p.
     if \<not> truthy p then py_delitem m1 ''parameters'' else Inr m1)))"

text \<open>The loops over \<^verbatim>\<open>paths.values()\<close> and over the \<^verbatim>\<open>values()\<close> of each of them.\<close>

definition cleanup_method :: "pyval \<times> pyval \<Rightarrow> error + (pyval \<times> pyval)" where
  "cleanup_method item = thenE (cleanup_op (snd item)) (\<lambda>obj. Inr (fst item, obj))"

definition cleanup_path :: "pyval \<times> pyval \<Rightarrow> error + (pyval \<times> pyval)" where
  "cleanup_path item =
     thenE (py_items (snd item)) (\<lambda>ms.
     thenE (mapE cleanup_method ms) (\<lambda>ms1.
     Inr (fst item, PDict ms1)))"

definition cleanup_paths :: "(pyval \<times> pyval) list \<Rightarrow> error + (pyval \<times> pyval) list" where
  "cleanup_paths ps = mapE cleanup_path ps"

subsection \<open>\<^verbatim>\<open>convert_swagger_12_to_20\<close>\<close>

text \<open>
  The function returns the empty dictionary when the URL does not end in \<^verbatim>\<open>api-docs\<close> and
  when the request for the resource listing fails; an exception it does not catch is the
  \<open>Inl\<close> result. Setting \<^verbatim>\<open>version\<close> in \<^verbatim>\<open>swagger_20["info"]\<close> needs a dictionary there.
\<close>

definition convert_listing :: "world \<Rightarrow> parsed_url \<Rightarrow> pyval \<Rightarrow> error + pyval" where
  "convert_listing w parsed_url input_data =
     (let host = netloc parsed_url;
          base_path = py_rstrip (path parsed_url) ''/'';
          base_url = scheme parsed_url @ ''://'' @ netloc parsed_url @ base_path @ ''/''
      in thenE (py_getitem input_data ''info'') (\<lambda>info.
         thenE (py_get input_data ''apiVersion'' (PStr ''1.0'')) (\<lambda>version.
         thenE (py_setitem info ''version'' version) (\<lambda>info1.
         thenE (py_getitem input_data ''apis'') (\<lambda>apis.
         thenE (py_iter apis) (\<lambda>api_list.
         thenE (foldE (process_api_entry w base_url) api_list
                  \<lparr>tags = [], paths = [], seen_tags = {}\<rparr>) (\<lambda>st.
         thenE (py_get input_data ''models'' (PDict [])) (\<lambda>models.
         thenE (py_items models) (\<lambda>model_items.
         thenE (foldE convert_model model_items []) (\<lambda>definitions.
         thenE (cleanup_paths (paths st)) (\<lambda>paths1.
         Inr (PDict [(PStr ''swagger'', PStr ''2.0''),
                     (PStr ''info'', info1),
                     (PStr ''host'', PStr host),
                     (PStr ''basePath'', PStr base_path),
                     (PStr ''schemes'', PList [PStr (scheme parsed_url)]),
                     (PStr ''paths'', PDict paths1),
                     (PStr ''definitions'', PDict definitions),
                     (PStr ''tags'', PList (tags st))]))))))))))))"

definition convert_swagger_12_to_20 :: "world \<Rightarrow> string \<Rightarrow> error + pyval" where
  "convert_swagger_12_to_20 w api_docs_url =
     (if \<not> py_endswith api_docs_url ''api-docs'' then Inr (PDict [])
      else thenE (urlparse w api_docs_url) (\<lambda>parsed_url.
           case http_get w api_docs_url of
             None \<Rightarrow> Inr (PDict [])
           | Some input_data \<Rightarrow> convert_listing w parsed_url input_data))"

section \<open>Reading the output, and example services\<close>

text \<open>\<open>py_at v ks\<close> follows the string keys \<open>ks\<close> into nested dictionaries.\<close>

fun py_at :: "pyval \<Rightarrow> string list \<Rightarrow> pyval option" where
  "py_at v [] = Some v"
| "py_at v (k # ks) =
     (case v of
        PDict d \<Rightarrow> (case dict_lookup d (PStr k) of Some v' \<Rightarrow> py_at v' ks | None \<Rightarrow> None)
      | _ \<Rightarrow> None)"

text \<open>The value at the keys \<open>ks\<close> of the document the conversion returns.\<close>

definition converted_at :: "world \<Rightarrow> string \<Rightarrow> string list \<Rightarrow> pyval option" where
  "converted_at w url ks =
     (case convert_swagger_12_to_20 w url of Inr out \<Rightarrow> py_at out ks | Inl e \<Rightarrow> None)"

text \<open>A service that answers the listed URLs with the listed documents and fails elsewhere.\<close>

definition serve :: "(string \<times> pyval) list \<Rightarrow> world" where
  "serve docs = \<lparr>http_get = map_of docs, bracketed_host_ok = (\<lambda>h. False)\<rparr>"

definition origin_url :: string where
  "origin_url = ''http://host/v1/api-docs''"

text \<open>A resource listing with one API reference, and one without the \<^verbatim>\<open>apis\<close> field.\<close>

definition pet_listing :: pyval where
  "pet_listing =
     PDict [(PStr ''info'', PDict [(PStr ''title'', PStr ''Pet store'')]),
            (PStr ''apis'', PList [PDict [(PStr ''path'', PStr ''/pet-controller''),
                                          (PStr ''description'', PStr ''Pets'')]])]"

definition listing_without_apis :: pyval where
  "listing_without_apis = PDict [(PStr ''info'', PDict [(PStr ''title'', PStr ''Pet store'')])]"

text \<open>
  The declaration behind \<^verbatim>\<open>/pet-controller\<close>: one endpoint \<^verbatim>\<open>/pet\<close> with one \<^verbatim>\<open>GET\<close>
  operation that has the given response messages; and the service that answers with the
  listing and this declaration.
\<close>

definition pet_declaration :: "pyval list \<Rightarrow> pyval" where
  "pet_declaration resps =
     PDict [(PStr ''apis'',
             PList [PDict [(PStr ''path'', PStr ''/pet''),
                           (PStr ''operations'',
                            PList [PDict [(PStr ''method'', PStr ''GET''),
                                          (PStr ''summary'', PStr ''Find a pet''),
                                          (PStr ''notes'', PStr ''''),
                                          (PStr ''responseMessages'', PList resps),
                                          (PStr ''consumes'', PList []),
                                          (PStr ''produces'', PList [PStr ''application/json''])]])]])]"

definition pet_service :: "pyval list \<Rightarrow> world" where
  "pet_service resps =
     serve [(origin_url, pet_listing),
            (origin_url @ ''//pet-controller'', pet_declaration resps)]"

text \<open>A response message with an empty \<^verbatim>\<open>responseModel\<close>, and one without \<^verbatim>\<open>message\<close>.\<close>

definition not_found_message :: pyval where
  "not_found_message =
     PDict [(PStr ''code'', PInt 404), (PStr ''message'', PStr ''''),
            (PStr ''responseModel'', PStr '''')]"

definition message_without_text :: pyval where
  "message_without_text = PDict [(PStr ''code'', PInt 404), (PStr ''responseModel'', PStr ''Pet'')]"

text \<open>A resource listing with no API reference and one model, none of whose properties is required.\<close>

definition model_listing :: pyval where
  "model_listing =
     PDict [(PStr ''info'', PDict []),
            (PStr ''apis'', PList []),
            (PStr ''models'',
             PDict [(PStr ''Pet'',
                     PDict [(PStr ''properties'',
                             PDict [(PStr ''name'', PDict [(PStr ''type'', PStr ''String'')]),
                                    (PStr ''age'', PDict [(PStr ''type'', PStr ''Integer''),
                                                           (PStr ''required'', PBool False)])])])])]"

text \<open>The properties of a model that carry a truthy \<^verbatim>\<open>required\<close> flag, in source order.\<close>

definition required_flag :: "pyval \<Rightarrow> bool" where
  "required_flag prop_def =
     (case py_get prop_def ''required'' (PBool False) of Inr r \<Rightarrow> truthy r | Inl e \<Rightarrow> False)"

definition required_names :: "(pyval \<times> pyval) list \<Rightarrow> pyval list" where
  "required_names props = map fst (filter (\<lambda>kv. required_flag (snd kv)) props)"

text \<open>A model with a required property and one that is not.\<close>

definition pet_model :: pyval where
  "pet_model =
     PDict [(PStr ''properties'',
             PDict [(PStr ''id'', PDict [(PStr ''type'', PStr ''Integer''),
                                         (PStr ''required'', PBool True)]),
                    (PStr ''name'', PDict [(PStr ''type'', PStr ''String'')])])]"

text \<open>
  The URL under which the declarations are fetched (\<^verbatim>\<open>base_url\<close>, line 30), and the document
  the converter returns for \<open>pet_service []\<close>.
\<close>

definition base_url_of :: "parsed_url \<Rightarrow> string" where
  "base_url_of pu = scheme pu @ ''://'' @ netloc pu @ py_rstrip (path pu) ''/'' @ ''/''"

definition pet_document :: pyval where
  "pet_document =
     PDict [(PStr ''swagger'', PStr ''2.0''),
            (PStr ''info'', PDict [(PStr ''title'', PStr ''Pet store''),
                                   (PStr ''version'', PStr ''1.0'')]),
            (PStr ''host'', PStr ''host''),
            (PStr ''basePath'', PStr ''/v1/api-docs''),
            (PStr ''schemes'', PList [PStr ''http'']),
            (PStr ''paths'',
             PDict [(PStr ''/pet'',
                     PDict [(PStr ''get'',
                             PDict [(PStr ''tags'', PList [PStr ''pet'']),
                                    (PStr ''summary'', PStr ''Find a pet''),
                                    (PStr ''description'', PStr ''''),
                                    (PStr ''consumes'', PList []),
                                    (PStr ''produces'', PList [PStr ''application/json''])])])]),
            (PStr ''definitions'', PDict []),
            (PStr ''tags'', PList [PDict [(PStr ''name'', PStr ''pet''),
                                          (PStr ''description'', PStr ''Pets'')]])]"


section \<open>Basic facts\<close>

lemma thenE_Inl [simp]: "thenE (Inl e) f = Inl e"
  by (simp add: thenE_def)

lemma thenE_Inr [simp]: "thenE (Inr x) f = f x"
  by (simp add: thenE_def)

lemma thenE_eq_Inr: "thenE m f = Inr y \<longleftrightarrow> (\<exists>x. m = Inr x \<and> f x = Inr y)"
  by (cases m) simp_all

lemma key_eq_refl [simp]: "key_eq k k"
  by (simp add: key_eq_def)

lemma key_eq_sym: "key_eq a b \<Longrightarrow> key_eq b a"
  by (simp add: key_eq_def)

lemma key_eq_trans: "key_eq a b \<Longrightarrow> key_eq b c \<Longrightarrow> key_eq a c"
  by (simp add: key_eq_def)

lemma key_eq_PStr [simp]: "key_eq (PStr a) k \<longleftrightarrow> k = PStr a"
  by (cases k) (auto simp: key_eq_def)

lemma key_eq_PStr2 [simp]: "key_eq k (PStr a) \<longleftrightarrow> k = PStr a"
  by (cases k) (auto simp: key_eq_def)

lemma dict_lookup_store_same [simp]: "dict_lookup (dict_store d k v) k = Some v"
  by (induction d) auto

lemma convert_property_required:
  assumes "convert_property acc item = Inr acc'"
  shows "snd acc' = snd acc @ (if required_flag (snd item) then [fst item] else [])"
  using assms
  by (auto simp: convert_property_def thenE_eq_Inr Let_def required_flag_def split: if_splits)

lemma foldE_convert_property_required:
  "foldE convert_property items acc = Inr acc' \<Longrightarrow> snd acc' = snd acc @ required_names items"
proof (induction items arbitrary: acc)
  case Nil
  then show ?case by (simp add: required_names_def)
next
  case (Cons item items)
  from Cons.prems obtain acc1 where
    step: "convert_property acc item = Inr acc1" and
    rest: "foldE convert_property items acc1 = Inr acc'"
    by (auto simp: thenE_eq_Inr)
  from Cons.IH [OF rest] convert_property_required [OF step] show ?case
    by (simp add: required_names_def)
qed

text \<open>What a successful run of the converter consists of.\<close>

lemma convert_listing_InrD:
  assumes "convert_listing w pu input_data = Inr out"
  obtains info version info1 apis api_list st models model_items defs paths1 where
    "py_getitem input_data ''info'' = Inr info"
    "py_get input_data ''apiVersion'' (PStr ''1.0'') = Inr version"
    "py_setitem info ''version'' version = Inr info1"
    "py_getitem input_data ''apis'' = Inr apis"
    "py_iter apis = Inr api_list"
    "foldE (process_api_entry w (base_url_of pu)) api_list
       \<lparr>tags = [], paths = [], seen_tags = {}\<rparr> = Inr st"
    "py_get input_data ''models'' (PDict []) = Inr models"
    "py_items models = Inr model_items"
    "foldE convert_model model_items [] = Inr defs"
    "cleanup_paths (paths st) = Inr paths1"
    "out = PDict [(PStr ''swagger'', PStr ''2.0''),
                  (PStr ''info'', info1),
                  (PStr ''host'', PStr (netloc pu)),
                  (PStr ''basePath'', PStr (py_rstrip (path pu) ''/'')),
                  (PStr ''schemes'', PList [PStr (scheme pu)]),
                  (PStr ''paths'', PDict paths1),
                  (PStr ''definitions'', PDict defs),
                  (PStr ''tags'', PList (tags st))]"
  using assms unfolding convert_listing_def Let_def thenE_eq_Inr base_url_of_def
  by blast

lemma convert_swagger_InrD:
  assumes "convert_swagger_12_to_20 w url = Inr out" and "out \<noteq> PDict []"
  obtains pu input_data where
    "py_endswith url ''api-docs''"
    "urlparse w url = Inr pu"
    "http_get w url = Some input_data"
    "convert_listing w pu input_data = Inr out"
  using assms
  by (auto simp: convert_swagger_12_to_20_def thenE_eq_Inr split: if_splits option.splits)

lemma urlparse_origin:
  "urlparse w ''http://host/v1/api-docs''
     = Inr \<lparr>scheme = ''http'', netloc = ''host'', path = ''/v1/api-docs'',
             params = '''', query = '''', fragment = ''''\<rparr>"
  by (simp add: urlparse_def split_scheme_def before_first_def after_first_def
        ascii_letters_def scheme_chars_def py_lower_def py_lower_char_def splitnetloc_def
        uses_params_def)

lemma pet_service_converts:
  "convert_swagger_12_to_20 (pet_service []) origin_url = Inr pet_document"
  by code_simp


section \<open>Host, base path and schemes\<close>

text \<open>
  C1, as the specification states it: for the origin URL \<^verbatim>\<open>http://host/v1/api-docs\<close> the
  base path is \<^verbatim>\<open>/v1\<close>. The converter takes the whole path of the URL (line 29): the
  base path of the document returned is \<^verbatim>\<open>/v1/api-docs\<close>.
\<close>

theorem base_path_counterexample:
  "origin_url = ''http://host/v1/api-docs''
   \<and> converted_at (pet_service []) origin_url [''basePath''] = Some (PStr ''/v1/api-docs'')"
  by code_simp

text \<open>
  C1, amended: in a document the converter returns, \<^verbatim>\<open>host\<close> is the authority of the origin
  URL, \<^verbatim>\<open>basePath\<close> is its whole path without trailing slashes (the segment \<^verbatim>\<open>api-docs\<close>
  included) and \<^verbatim>\<open>schemes\<close> holds exactly its scheme; for \<^verbatim>\<open>http://host/v1/api-docs\<close> these
  are \<^verbatim>\<open>host\<close>, \<^verbatim>\<open>/v1/api-docs\<close> and \<^verbatim>\<open>["http"]\<close>.
\<close>

theorem origin_url_parts:
  assumes "convert_swagger_12_to_20 w url = Inr out" and "out \<noteq> PDict []"
  shows "\<exists>pu. urlparse w url = Inr pu
           \<and> py_at out [''host''] = Some (PStr (netloc pu))
           \<and> py_at out [''basePath''] = Some (PStr (py_rstrip (path pu) ''/''))
           \<and> py_at out [''schemes''] = Some (PList [PStr (scheme pu)])
           \<and> (url = ''http://host/v1/api-docs'' \<longrightarrow>
                 py_at out [''host''] = Some (PStr ''host'')
                 \<and> py_at out [''basePath''] = Some (PStr ''/v1/api-docs'')
                 \<and> py_at out [''schemes''] = Some (PList [PStr ''http'']))"
proof -
  from assms obtain pu input_data where
    pu: "urlparse w url = Inr pu" and run: "convert_listing w pu input_data = Inr out"
    by (rule convert_swagger_InrD)
  from run have parts:
    "py_at out [''host''] = Some (PStr (netloc pu))"
    "py_at out [''basePath''] = Some (PStr (py_rstrip (path pu) ''/''))"
    "py_at out [''schemes''] = Some (PList [PStr (scheme pu)])"
    by (auto elim!: convert_listing_InrD)
  have "netloc pu = ''host'' \<and> py_rstrip (path pu) ''/'' = ''/v1/api-docs''
        \<and> scheme pu = ''http''" if "url = ''http://host/v1/api-docs''"
    using pu that by (auto simp: urlparse_origin py_rstrip_def)
  with parts pu show ?thesis
    by auto
qed

theorem origin_url_parts_witness:
  "convert_swagger_12_to_20 (pet_service []) ''http://host/v1/api-docs'' = Inr pet_document
   \<and> pet_document \<noteq> PDict []
   \<and> py_at pet_document [''host''] = Some (PStr ''host'')
   \<and> py_at pet_document [''basePath''] = Some (PStr ''/v1/api-docs'')
   \<and> py_at pet_document [''schemes''] = Some (PList [PStr ''http''])"
proof -
  have run: "convert_swagger_12_to_20 (pet_service []) ''http://host/v1/api-docs'' = Inr pet_document"
    using pet_service_converts by (simp add: origin_url_def)
  have ne: "pet_document \<noteq> PDict []"
    by (simp add: pet_document_def)
  from origin_url_parts [OF run ne] run ne show ?thesis
    by auto
qed


section \<open>The schema of a response\<close>

text \<open>
  C2, as the specification states it: the response object has a \<^verbatim>\<open>schema\<close> key only for a
  non-empty \<^verbatim>\<open>responseModel\<close>. The converter writes the key always (line 99): for the
  response message \<open>not_found_message\<close>, whose \<^verbatim>\<open>responseModel\<close> is the empty string, the
  document returned has the key, with the value \<open>None\<close>.
\<close>

theorem schema_key_absent_counterexample:
  "converted_at (pet_service [not_found_message]) origin_url
     [''paths'', ''/pet'', ''get'', ''responses'', ''404'', ''schema''] = Some PNone"
  by code_simp

text \<open>
  C2, amended: a response message with \<^verbatim>\<open>code\<close>, \<^verbatim>\<open>message\<close> and \<^verbatim>\<open>responseModel\<close> is
  translated to a response object that always has the \<^verbatim>\<open>schema\<close> key; its value is the
  reference \<^verbatim>\<open>#/definitions/<responseModel>\<close> when \<^verbatim>\<open>responseModel\<close> is truthy and
  \<open>None\<close> otherwise.
\<close>

theorem response_schema_key:
  assumes "py_getitem resp ''code'' = Inr c"
    and "py_getitem resp ''message'' = Inr m"
    and "py_getitem resp ''responseModel'' = Inr rm"
  shows "\<exists>obj. convert_response resp = Inr (py_str c, obj)
           \<and> py_at obj [''schema'']
               = Some (if truthy rm
                       then PDict [(PStr ''$ref'', PStr (''#/definitions/'' @ py_str rm))]
                       else PNone)"
  using assms by (simp add: convert_response_def)

theorem response_schema_key_witness:
  "\<exists>obj. convert_response
            (PDict [(PStr ''code'', PInt 200), (PStr ''message'', PStr ''OK''),
                    (PStr ''responseModel'', PStr ''Pet'')]) = Inr (''200'', obj)
         \<and> py_at obj [''schema''] = Some (PDict [(PStr ''$ref'', PStr ''#/definitions/Pet'')])"
  using response_schema_key
          [of "PDict [(PStr ''code'', PInt 200), (PStr ''message'', PStr ''OK''),
                      (PStr ''responseModel'', PStr ''Pet'')]"
              "PInt 200" "PStr ''OK''" "PStr ''Pet''"]
  by (simp add: py_getitem_def py_str_def int_str_def)


section \<open>The required list of a model\<close>

text \<open>
  C3, as the specification states it: a model none of whose properties is required gets
  a definition without the \<^verbatim>\<open>required\<close> key. The converter writes the key always (line
  136): for \<open>model_listing\<close> the definition of \<^verbatim>\<open>Pet\<close> has the key, with the value \<open>None\<close>.
\<close>

theorem required_key_absent_counterexample:
  "converted_at (serve [(origin_url, model_listing)]) origin_url
     [''definitions'', ''Pet'', ''required''] = Some PNone"
  by code_simp

text \<open>
  C3, amended: the definition stored for a model always has the \<^verbatim>\<open>required\<close> key; its
  value is \<open>None\<close> when no property carries a truthy \<^verbatim>\<open>required\<close> flag, and otherwise the
  list of the names of the properties that do, in source order.
\<close>

theorem model_required_key:
  assumes "convert_model defs (model_name, model_def) = Inr defs'"
  shows "\<exists>props obj.
           py_getitem model_def ''properties'' = Inr (PDict props)
           \<and> dict_lookup defs' model_name = Some obj
           \<and> py_at obj [''required'']
               = Some (if required_names props = [] then PNone else PList (required_names props))"
proof -
  from assms obtain pv props pr description where
    pv: "py_getitem model_def ''properties'' = Inr pv" and
    items: "py_items pv = Inr props" and
    loop: "foldE convert_property props ([], []) = Inr pr" and
    defs': "defs' = dict_store defs model_name
               (PDict [(PStr ''type'', PStr ''object''),
                       (PStr ''properties'', PDict (fst pr)),
                       (PStr ''required'', if snd pr \<noteq> [] then PList (snd pr) else PNone),
                       (PStr ''description'', description)])"
    unfolding convert_model_def thenE_eq_Inr fst_conv snd_conv by blast
  from items have "pv = PDict props"
    by (cases pv) (simp_all add: py_items_def)
  moreover from foldE_convert_property_required [OF loop] have "snd pr = required_names props"
    by simp
  ultimately show ?thesis
    using pv defs' by auto
qed

theorem model_required_key_witness:
  "\<exists>defs' obj. convert_model [] (PStr ''Pet'', pet_model) = Inr defs'
     \<and> dict_lookup defs' (PStr ''Pet'') = Some obj
     \<and> py_at obj [''required''] = Some (PList [PStr ''id''])"
proof -
  have run: "convert_model [] (PStr ''Pet'', pet_model) =
    Inr [(PStr ''Pet'',
          PDict [(PStr ''type'', PStr ''object''),
                 (PStr ''properties'',
                  PDict [(PStr ''id'', PDict [(PStr ''type'', PStr ''integer''),
                                              (PStr ''description'', PStr '''')]),
                         (PStr ''name'', PDict [(PStr ''type'', PStr ''string''),
                                                (PStr ''description'', PStr '''')])]),
                 (PStr ''required'', PList [PStr ''id'']),
                 (PStr ''description'', PStr '''')])]"
    by code_simp
  from model_required_key [OF run] obtain props obj where
    "py_getitem pet_model ''properties'' = Inr (PDict props)"
    "dict_lookup [(PStr ''Pet'',
          PDict [(PStr ''type'', PStr ''object''),
                 (PStr ''properties'',
                  PDict [(PStr ''id'', PDict [(PStr ''type'', PStr ''integer''),
                                              (PStr ''description'', PStr '''')]),
                         (PStr ''name'', PDict [(PStr ''type'', PStr ''string''),
                                                (PStr ''description'', PStr '''')])]),
                 (PStr ''required'', PList [PStr ''id'']),
                 (PStr ''description'', PStr '''')])] (PStr ''Pet'') = Some obj"
    "py_at obj [''required'']
       = Some (if required_names props = [] then PNone else PList (required_names props))"
    by blast
  then show ?thesis
    using run
    by (auto simp: pet_model_def py_getitem_def required_names_def required_flag_def py_get_def)
qed


section \<open>The description of a response\<close>

text \<open>
  C6, as the specification states it: a response message without the \<^verbatim>\<open>message\<close> key is
  translated with the default description and the conversion succeeds. The converter
  subscripts \<^verbatim>\<open>resp["message"]\<close> (line 98): for \<open>message_without_text\<close> the conversion ends
  with \<open>KeyError\<close>.
\<close>

theorem absent_message_counterexample:
  "convert_swagger_12_to_20 (pet_service [message_without_text]) origin_url
     = Inl (KeyError (PStr ''message''))"
  by code_simp

text \<open>
  C6, amended: a response message whose \<^verbatim>\<open>message\<close> key is present (next to \<^verbatim>\<open>code\<close> and
  \<^verbatim>\<open>responseModel\<close>) is translated without an exception; the description is
  \<^verbatim>\<open>No description\<close> when the message is falsy (the empty string and \<open>None\<close> among
  others) and the message itself when it is truthy.
\<close>

theorem response_description_default:
  assumes "py_getitem resp ''code'' = Inr c"
    and "py_getitem resp ''message'' = Inr m"
    and "py_getitem resp ''responseModel'' = Inr rm"
  shows "\<exists>obj. convert_response resp = Inr (py_str c, obj)
           \<and> py_at obj [''description'']
               = Some (if truthy m then m else PStr ''No description'')"
  using assms by (simp add: convert_response_def py_or_def)

theorem response_description_default_witness:
  "\<exists>obj. convert_response
            (PDict [(PStr ''code'', PInt 404), (PStr ''message'', PNone),
                    (PStr ''responseModel'', PStr '''')]) = Inr (''404'', obj)
         \<and> py_at obj [''description''] = Some (PStr ''No description'')"
  using response_description_default
          [of "PDict [(PStr ''code'', PInt 404), (PStr ''message'', PNone),
                      (PStr ''responseModel'', PStr '''')]"
              "PInt 404" "PNone" "PStr ''''"]
  by (simp add: py_getitem_def py_str_def int_str_def)


section \<open>Missing top-level fields\<close>

text \<open>
  C9. When the resource listing that was fetched has no \<^verbatim>\<open>info\<close> field or no \<^verbatim>\<open>apis\<close>
  field, the conversion ends with an exception and returns no document. (The URL ends in
  \<^verbatim>\<open>api-docs\<close> and the listing was fetched: otherwise nothing is parsed.)
\<close>

theorem missing_top_level_field_is_fatal:
  assumes "py_endswith url ''api-docs''"
    and "http_get w url = Some (PDict d)"
    and "dict_lookup d (PStr ''info'') = None \<or> dict_lookup d (PStr ''apis'') = None"
  shows "\<exists>e. convert_swagger_12_to_20 w url = Inl e"
proof (cases "urlparse w url")
  case (Inl e)
  with assms(1) show ?thesis
    by (simp add: convert_swagger_12_to_20_def)
next
  case (Inr pu)
  have "\<exists>e. convert_listing w pu (PDict d) = Inl e"
  proof (cases "dict_lookup d (PStr ''info'')")
    case None
    then show ?thesis
      by (simp add: convert_listing_def py_getitem_def Let_def)
  next
    case (Some info)
    with assms(3) have apis: "dict_lookup d (PStr ''apis'') = None"
      by simp
    show ?thesis
    proof (cases "py_setitem info ''version''
                    (case dict_lookup d (PStr ''apiVersion'') of
                       None \<Rightarrow> PStr ''1.0'' | Some v \<Rightarrow> v)")
      case (Inl e)
      with Some show ?thesis
        by (simp add: convert_listing_def py_getitem_def py_get_def Let_def split: option.splits)
    next
      case (Inr info1)
      with Some apis show ?thesis
        by (simp add: convert_listing_def py_getitem_def py_get_def Let_def split: option.splits)
    qed
  qed
  with assms(1,2) Inr show ?thesis
    by (simp add: convert_swagger_12_to_20_def)
qed

theorem missing_top_level_field_is_fatal_witness:
  "py_endswith origin_url ''api-docs''
   \<and> http_get (serve [(origin_url, listing_without_apis)]) origin_url = Some listing_without_apis
   \<and> py_at listing_without_apis [''apis''] = None
   \<and> (\<exists>e. convert_swagger_12_to_20 (serve [(origin_url, listing_without_apis)]) origin_url = Inl e)"
proof -
  have a: "py_endswith origin_url ''api-docs''"
    by (simp add: py_endswith_def origin_url_def)
  have b: "http_get (serve [(origin_url, listing_without_apis)]) origin_url
             = Some (PDict [(PStr ''info'', PDict [(PStr ''title'', PStr ''Pet store'')])])"
    by (simp add: serve_def listing_without_apis_def)
  have c: "dict_lookup [(PStr ''info'', PDict [(PStr ''title'', PStr ''Pet store'')])] (PStr ''info'') = None
           \<or> dict_lookup [(PStr ''info'', PDict [(PStr ''title'', PStr ''Pet store'')])] (PStr ''apis'') = None"
    by simp
  from missing_top_level_field_is_fatal [OF a b c] a b show ?thesis
    by (simp add: listing_without_apis_def)
qed


end
